theory Spec2Isabelle
  imports Complex_Main
begin

section \<open>Data model of the vehicle (vehicle.js) and of the terrain query (environment.js)\<close>

text \<open>
  JavaScript numbers are modelled as the real numbers they denote: every theorem below is
  about the arithmetic the source writes down, not about IEEE rounding. The engine
  (BABYLON) is not part of the repository; what it answers (ray picks, quaternion
  construction and interpolation) is a parameter of the model, collected in \<open>Scene\<close>.
\<close>

record Vector3 =
  vx :: real
  vy :: real
  vz :: real

definition Vector3_new :: "real \<Rightarrow> real \<Rightarrow> real \<Rightarrow> Vector3" where
  "Vector3_new a b c = \<lparr>vx = a, vy = b, vz = c\<rparr>"

text \<open>\<open>this.controls\<close> of the constructor.\<close>

record Controls =
  forward :: bool
  backward :: bool
  left :: bool
  right :: bool
  brake :: bool
  handbrake :: bool
  cameraToggle :: bool

datatype CameraMode = follow | chase | firstPerson

text \<open>
  The result of \<open>scene.pickWithRay\<close>: either nothing was hit (\<open>hit\<close> false) or a point
  was picked (\<open>hit\<close> true, \<open>pickedPoint\<close> set).
\<close>

datatype PickingInfo = Miss | Hit Vector3

text \<open>
  The fields of \<open>Vehicle\<close> that the per-frame update, the key handlers and \<open>reset\<close> read
  or write. \<open>rotation\<close> is \<open>this.rotation\<close>, the heading in radians; \<open>mesh_position\<close>,
  \<open>mesh_rotation\<close> and \<open>mesh_rotationQuaternion\<close> are the three fields of \<open>this.mesh\<close>;
  \<open>wheelRaycasts\<close> holds the \<open>lastHitPoint\<close> of every wheel raycast (\<open>None\<close> for
  \<open>null\<close>); \<open>chassisBody\<close> tells whether \<open>this.chassisBody\<close> is set (the Havok path,
  on which the physics engine moves the mesh between frames; those writes are the
  engine's and are not modelled).
  The wheel meshes and wheel bodies carry visual and engine state only and are left out.
  The quaternion type \<open>'q\<close> belongs to the engine.
\<close>

record 'q Vehicle =
  speed :: real
  steeringAngle :: real
  rotation :: real
  mesh_position :: Vector3
  mesh_rotation :: Vector3
  mesh_rotationQuaternion :: "'q option"
  wheelRaycasts :: "Vector3 option list"
  chassisBody :: bool
  cameraMode :: CameraMode
  controls :: Controls

text \<open>
  What the engine and the page answer during one frame: whether \<open>window.environment\<close>
  is set, the pick of the vertical ray of \<open>getHeightAtPosition\<close> at \<open>(x, z)\<close>, the pick
  of the ray of wheel \<open>i\<close>, \<open>Quaternion.FromRotationMatrix (Matrix.FromXYZAxes r u f)\<close>,
  and \<open>Quaternion.Slerp\<close>. The source calls \<open>BABYLON.Matrix.FromXYZAxes\<close>; an engine whose
  \<open>Matrix\<close> has no such function raises there, and \<open>quaternionFromAxes\<close> answers \<open>None\<close>.
\<close>

record 'q Scene =
  environment :: bool
  pickGround :: "real \<Rightarrow> real \<Rightarrow> PickingInfo"
  pickWheel :: "nat \<Rightarrow> PickingInfo"
  quaternionFromAxes :: "Vector3 \<Rightarrow> Vector3 \<Rightarrow> Vector3 \<Rightarrow> 'q option"
  slerp :: "'q \<Rightarrow> 'q \<Rightarrow> real \<Rightarrow> 'q"

subsection \<open>Vehicle characteristics (constructor, lines 822-832)\<close>

definition maxSpeed :: real where "maxSpeed = 80"
definition acceleration :: real where "acceleration = 0.5"
definition deceleration :: real where "deceleration = 0.2"
definition brakeForce :: real where "brakeForce = 1.5"
definition turnSpeed :: real where "turnSpeed = 0.05"
definition wheelBase :: real where "wheelBase = 4"
definition wheelRadius :: real where "wheelRadius = 0.7"
definition maxSteeringAngle :: real where "maxSteeringAngle = pi / 6"

section \<open>Steering and speed\<close>

text \<open>\<open>updateSteering\<close>, lines 1552-1573: the three \<open>if\<close> statements run in sequence.\<close>

definition updateSteering :: "'q Vehicle \<Rightarrow> 'q Vehicle" where
  "updateSteering v =
     (let c = controls v;
          a0 = steeringAngle v;
          a1 = (if \<not> left c \<and> \<not> right c then
                  (if a0 > 0 then max 0 (a0 - turnSpeed / 2)
                   else if a0 < 0 then min 0 (a0 + turnSpeed / 2)
                   else a0)
                else a0);
          a2 = (if left c then max (- maxSteeringAngle) (a1 - turnSpeed) else a1);
          a3 = (if right c then min maxSteeringAngle (a2 + turnSpeed) else a2)
      in v\<lparr>steeringAngle := a3\<rparr>)"

text \<open>
  Lines 1572-1573: the angle written to the two front wheel meshes (and to the wheel
  bodies on the Havok path), computed from the steering angle just updated and the
  speed of the previous frame.
\<close>

definition speedFactor :: "real \<Rightarrow> real" where
  "speedFactor s = min 1 (1 - (\<bar>s\<bar> / maxSpeed) * 0.5)"

definition effectiveSteeringAngle :: "'q Vehicle \<Rightarrow> real" where
  "effectiveSteeringAngle v = steeringAngle v * speedFactor (speed v)"

text \<open>
  \<open>updateSpeed\<close>, lines 1591-1652. The brake branch returns early; the handbrake only
  touches wheel bodies. The calls on wheel bodies are engine effects and are left out.
\<close>

definition updateSpeed :: "'q Vehicle \<Rightarrow> 'q Vehicle" where
  "updateSpeed v =
     (let c = controls v; s = speed v in
      if brake c then
        (if s > 0 then v\<lparr>speed := max 0 (s - brakeForce)\<rparr>
         else if s < 0 then v\<lparr>speed := min 0 (s + brakeForce)\<rparr>
         else v)
      else if forward c then
        (let accelerationFactor = 1 - min 0.7 (\<bar>s\<bar> / maxSpeed)
         in v\<lparr>speed := min maxSpeed (s + acceleration * accelerationFactor)\<rparr>)
      else if backward c then
        v\<lparr>speed := max (- maxSpeed / 2) (s - acceleration)\<rparr>
      else
        (if s > 0 then v\<lparr>speed := max 0 (s - deceleration)\<rparr>
         else if s < 0 then v\<lparr>speed := min 0 (s + deceleration)\<rparr>
         else v))"

section \<open>Terrain query and terrain follower\<close>

text \<open>
  \<open>Environment.getHeightAtPosition\<close> (environment.js, lines 1279-1294). The caller
  compares the result with \<open>null\<close>, so the result type has a value for \<open>null\<close>
  (\<open>None\<close>); the function itself has two return statements, both returning a number.
\<close>

definition getHeightAtPosition :: "'q Scene \<Rightarrow> real \<Rightarrow> real \<Rightarrow> real option" where
  "getHeightAtPosition sc a b =
     (case pickGround sc a b of
        Hit pickedPoint \<Rightarrow> Some (vy pickedPoint)
      | Miss \<Rightarrow> Some 0)"

text \<open>
  The operations of the engine's \<open>Vector3\<close> that \<open>adjustToTerrain\<close> calls, by their
  mathematical definitions; \<open>normalize\<close> leaves the zero vector as it is.
\<close>

definition Lerp :: "Vector3 \<Rightarrow> Vector3 \<Rightarrow> real \<Rightarrow> Vector3" where
  "Lerp a b t = Vector3_new (vx a + (vx b - vx a) * t) (vy a + (vy b - vy a) * t)
     (vz a + (vz b - vz a) * t)"

definition subtract :: "Vector3 \<Rightarrow> Vector3 \<Rightarrow> Vector3" where
  "subtract a b = Vector3_new (vx a - vx b) (vy a - vy b) (vz a - vz b)"

definition normalize :: "Vector3 \<Rightarrow> Vector3" where
  "normalize a =
     (let len = sqrt (vx a * vx a + vy a * vy a + vz a * vz a)
      in if len = 0 then a else Vector3_new (vx a / len) (vy a / len) (vz a / len))"

definition Cross :: "Vector3 \<Rightarrow> Vector3 \<Rightarrow> Vector3" where
  "Cross a b = Vector3_new (vy a * vz b - vz a * vy b) (vz a * vx b - vx a * vz b)
     (vx a * vy b - vy a * vx b)"

text \<open>Lines 1809-1845: the target orientation from the four wheel hit points.\<close>

definition terrainQuaternion ::
    "'q Scene \<Rightarrow> Vector3 \<Rightarrow> Vector3 \<Rightarrow> Vector3 \<Rightarrow> Vector3 \<Rightarrow> 'q option" where
  "terrainQuaternion sc p0 p1 p2 p3 =
     (let frontMidpoint = Lerp p0 p1 0.5;
          rearMidpoint = Lerp p2 p3 0.5;
          leftMidpoint = Lerp p0 p2 0.5;
          rightMidpoint = Lerp p1 p3 0.5;
          forwardVector = normalize (subtract rearMidpoint frontMidpoint);
          rightVector = normalize (subtract leftMidpoint rightMidpoint);
          upVector = normalize (Cross forwardVector rightVector)
      in quaternionFromAxes sc rightVector upVector forwardVector)"

text \<open>
  Lines 1803-1859: pitch and roll, when there are at least four wheel raycasts and the
  first four hold a hit point. Where the call of line 1842 raises, the frame ends
  there with everything written so far in place: \<open>adjustToTerrain\<close> is the last call
  of \<open>updateBasicPhysics\<close>, which is the last call of \<open>update\<close>.
\<close>

definition adjustOrientation :: "'q Scene \<Rightarrow> 'q Vehicle \<Rightarrow> 'q Vehicle" where
  "adjustOrientation sc v =
     (case wheelRaycasts v of
        Some p0 # Some p1 # Some p2 # Some p3 # rest \<Rightarrow>
          (case terrainQuaternion sc p0 p1 p2 p3 of
             None \<Rightarrow> v
           | Some rotationQuaternion \<Rightarrow>
               (case mesh_rotationQuaternion v of
                  None \<Rightarrow> v\<lparr>mesh_rotationQuaternion := Some rotationQuaternion\<rparr>
                | Some q \<Rightarrow>
                    v\<lparr>mesh_rotationQuaternion := Some (slerp sc q rotationQuaternion 0.1)\<rparr>))
      | _ \<Rightarrow> v)"


text \<open>\<open>adjustToTerrain\<close>, lines 1787-1862.\<close>

definition adjustToTerrain :: "'q Scene \<Rightarrow> 'q Vehicle \<Rightarrow> 'q Vehicle" where
  "adjustToTerrain sc v =
     (if environment sc then
        (case getHeightAtPosition sc (vx (mesh_position v)) (vz (mesh_position v)) of
           Some height \<Rightarrow>
             (let targetY = height + wheelRadius
              in adjustOrientation sc (v\<lparr>mesh_position := (mesh_position v)\<lparr>vy := targetY\<rparr>\<rparr>))
         | None \<Rightarrow> v)
      else v)"

section \<open>The per-frame update\<close>

text \<open>
  \<open>updateWheelRaycasts\<close>, lines 1655-1709, as far as \<open>lastHitPoint\<close> goes: one pick per
  raycast.
\<close>

definition updateWheelRaycasts :: "'q Scene \<Rightarrow> 'q Vehicle \<Rightarrow> 'q Vehicle" where
  "updateWheelRaycasts sc v =
     v\<lparr>wheelRaycasts :=
         map (\<lambda>i. case pickWheel sc i of Hit pickedPoint \<Rightarrow> Some pickedPoint | Miss \<Rightarrow> None)
           [0 ..< length (wheelRaycasts v)]\<rparr>"

text \<open>
  \<open>updateBasicPhysics\<close>, lines 1759-1784. The turn radius is computed from
  \<open>this.steeringAngle\<close>. Where the sine is zero JavaScript divides to an infinity and
  the next division gives zero; so does division in HOL, where \<open>a / 0 = 0\<close>.
\<close>

definition updateBasicPhysics :: "'q Scene \<Rightarrow> 'q Vehicle \<Rightarrow> 'q Vehicle" where
  "updateBasicPhysics sc v =
     (if speed v \<noteq> 0 then
        (let turnRadius = wheelBase / sin (\<bar>steeringAngle v\<bar> + 0.0001);
             angularVelocity = speed v / turnRadius * sgn (steeringAngle v);
             rotation' = rotation v + angularVelocity;
             moveX = sin rotation' * speed v;
             moveZ = cos rotation' * speed v;
             p = mesh_position v
         in adjustToTerrain sc
              (v\<lparr>rotation := rotation',
                 mesh_position := p\<lparr>vx := vx p + moveX, vz := vz p + moveZ\<rparr>,
                 mesh_rotation := (mesh_rotation v)\<lparr>vy := rotation'\<rparr>\<rparr>))
      else v)"

text \<open>
  \<open>update\<close>, lines 1529-1549. \<open>updateSuspension\<close> and \<open>updateWheels\<close> write to wheel
  meshes and wheel bodies only.
\<close>

definition update :: "'q Scene \<Rightarrow> 'q Vehicle \<Rightarrow> 'q Vehicle" where
  "update sc v =
     (let v1 = updateSteering v;
          v2 = updateSpeed v1;
          v3 = updateWheelRaycasts sc v2
      in if \<not> chassisBody v3 then updateBasicPhysics sc v3 else v3)"

section \<open>Keys, reset and runs\<close>

text \<open>\<open>String.prototype.toLowerCase\<close> on the ASCII letters.\<close>

definition toLowerCase :: "string \<Rightarrow> string" where
  "toLowerCase k =
     map (\<lambda>c. let n = (of_char c :: nat) in if 65 \<le> n \<and> n \<le> 90 then char_of (n + 32) else c) k"

definition toggleCamera :: "'q Vehicle \<Rightarrow> 'q Vehicle" where
  "toggleCamera v =
     (case cameraMode v of
        follow \<Rightarrow> v\<lparr>cameraMode := chase\<rparr>
      | chase \<Rightarrow> v\<lparr>cameraMode := firstPerson\<rparr>
      | firstPerson \<Rightarrow> v\<lparr>cameraMode := follow\<rparr>)"

text \<open>\<open>handleKeyDown\<close> and \<open>handleKeyUp\<close>, lines 1232-1286.\<close>

definition handleKeyDown :: "string \<Rightarrow> 'q Vehicle \<Rightarrow> 'q Vehicle" where
  "handleKeyDown key v =
     (let k = toLowerCase key; c = controls v in
      if k = ''w'' then v\<lparr>controls := c\<lparr>forward := True\<rparr>\<rparr>
      else if k = ''s'' then v\<lparr>controls := c\<lparr>backward := True\<rparr>\<rparr>
      else if k = ''a'' then v\<lparr>controls := c\<lparr>left := True\<rparr>\<rparr>
      else if k = ''d'' then v\<lparr>controls := c\<lparr>right := True\<rparr>\<rparr>
      else if k = '' '' then v\<lparr>controls := c\<lparr>brake := True\<rparr>\<rparr>
      else if k = ''shift'' then v\<lparr>controls := c\<lparr>handbrake := True\<rparr>\<rparr>
      else if k = ''c'' then
        (if \<not> cameraToggle c then toggleCamera (v\<lparr>controls := c\<lparr>cameraToggle := True\<rparr>\<rparr>)
         else v)
      else v)"

definition handleKeyUp :: "string \<Rightarrow> 'q Vehicle \<Rightarrow> 'q Vehicle" where
  "handleKeyUp key v =
     (let k = toLowerCase key; c = controls v in
      if k = ''w'' then v\<lparr>controls := c\<lparr>forward := False\<rparr>\<rparr>
      else if k = ''s'' then v\<lparr>controls := c\<lparr>backward := False\<rparr>\<rparr>
      else if k = ''a'' then v\<lparr>controls := c\<lparr>left := False\<rparr>\<rparr>
      else if k = ''d'' then v\<lparr>controls := c\<lparr>right := False\<rparr>\<rparr>
      else if k = '' '' then v\<lparr>controls := c\<lparr>brake := False\<rparr>\<rparr>
      else if k = ''shift'' then v\<lparr>controls := c\<lparr>handbrake := False\<rparr>\<rparr>
      else if k = ''c'' then v\<lparr>controls := c\<lparr>cameraToggle := False\<rparr>\<rparr>
      else v)"

text \<open>\<open>reset\<close>, lines 1875-1891: six assignments to \<open>this.controls\<close>, two to \<open>this.mesh\<close>,
  and \<open>this.speed\<close> and \<open>this.steeringAngle\<close>. Assigning \<open>mesh.rotation\<close> goes through the
  engine's setter, which clears \<open>mesh.rotationQuaternion\<close>.\<close>

definition reset :: "'q Vehicle \<Rightarrow> 'q Vehicle" where
  "reset v =
     v\<lparr>mesh_position := Vector3_new 0 0 0,
       mesh_rotation := Vector3_new 0 0 0,
       mesh_rotationQuaternion := None,
       speed := 0,
       steeringAngle := 0,
       controls := (controls v)\<lparr>forward := False, backward := False, left := False,
                                right := False, brake := False, handbrake := False\<rparr>\<rparr>"

text \<open>
  The vehicle when the update loop is registered (constructor and \<open>init\<close>): \<open>cb\<close> tells
  whether the Havok set-up created a chassis body, \<open>n\<close> is the number of wheel raycasts.
\<close>

definition spawn :: "bool \<Rightarrow> nat \<Rightarrow> 'q Vehicle" where
  "spawn cb n =
     \<lparr>speed = 0, steeringAngle = 0, rotation = 0,
      mesh_position = Vector3_new 0 0 0, mesh_rotation = Vector3_new 0 0 0,
      mesh_rotationQuaternion = None,
      wheelRaycasts = replicate n None,
      chassisBody = cb, cameraMode = follow,
      controls = \<lparr>forward = False, backward = False, left = False, right = False,
                  brake = False, handbrake = False, cameraToggle = False\<rparr>\<rparr>"

text \<open>
  What can happen to a vehicle between two frames and at a frame: a key goes down or up,
  the R key handler of main.js calls \<open>reset\<close>, the render loop calls \<open>update\<close>.
\<close>

datatype 'q Event = KeyDown string | KeyUp string | Reset | Tick "'q Scene"

fun step :: "'q Vehicle \<Rightarrow> 'q Event \<Rightarrow> 'q Vehicle" where
  "step v (KeyDown key) = handleKeyDown key v"
| "step v (KeyUp key) = handleKeyUp key v"
| "step v Reset = reset v"
| "step v (Tick sc) = update sc v"

definition run :: "'q Vehicle \<Rightarrow> 'q Event list \<Rightarrow> 'q Vehicle" where
  "run v es = foldl step v es"

section \<open>The kinematic integrator as the specification words it\<close>

text \<open>
  Section 4.4 of the specification, for a steering angle \<open>delta\<close>, a speed \<open>s\<close> and a
  heading: the turn radius \<open>R = wheelBase / sin (\<bar>delta\<bar> + \<epsilon>)\<close>, the angular velocity
  \<open>\<omega> = (s / R) * sign delta\<close>, the new heading, and the displacement along x and z.
  The \<open>\<epsilon>\<close> is the 0.0001 of the source.
\<close>

definition bicycleModel :: "real \<Rightarrow> real \<Rightarrow> real \<Rightarrow> real \<times> real \<times> real" where
  "bicycleModel delta s heading =
     (let R = wheelBase / sin (\<bar>delta\<bar> + 0.0001);
          omega = (s / R) * sgn delta;
          heading' = heading + omega
      in (heading', sin heading' * s, cos heading' * s))"

section \<open>Concrete frames and vehicles for the examples\<close>

text \<open>
  Two scenes over a one-element quaternion type, on an engine without
  \<open>Matrix.FromXYZAxes\<close>: one in which no ray hits anything, and one whose ground lies
  at height 10 everywhere while the wheel rays hit nothing.
\<close>

definition emptyScene :: "unit Scene" where
  "emptyScene =
     \<lparr>environment = True, pickGround = (\<lambda>a b. Miss), pickWheel = (\<lambda>i. Miss),
      quaternionFromAxes = (\<lambda>r u f. None), slerp = (\<lambda>p q t. ())\<rparr>"


text \<open>A vehicle on the basic-physics path with four wheels, as spawned.\<close>

definition car :: "unit Vehicle" where
  "car = spawn False 4"

text \<open>The car at speed 2 with the brake and the accelerator both held.\<close>

definition brakingCar :: "unit Vehicle" where
  "brakingCar = car\<lparr>speed := 2, controls := (controls car)\<lparr>brake := True, forward := True\<rparr>\<rparr>"

text \<open>The car with the accelerator held.\<close>

definition acceleratingCar :: "unit Vehicle" where
  "acceleratingCar = handleKeyDown ''w'' car"

text \<open>The car with the wheels turned to 0.05 and no key held.\<close>

definition turnedCar :: "unit Vehicle" where
  "turnedCar = car\<lparr>steeringAngle := 1 / 20\<rparr>"

text \<open>The car after W and D went down and one frame was rendered.\<close>

definition turningCar :: "unit Vehicle" where
  "turningCar = run car [KeyDown ''w'', KeyDown ''d'', Tick emptyScene]"


text \<open>The car at top speed with the wheels turned to 0.3.\<close>

definition fastTurningCar :: "unit Vehicle" where
  "fastTurningCar = car\<lparr>speed := 80, steeringAngle := 3 / 10\<rparr>"

text \<open>The car at speed 10 with the wheels straight, and at top speed.\<close>

definition cruisingCar :: "unit Vehicle" where
  "cruisingCar = car\<lparr>speed := 10\<rparr>"

definition topSpeedCar :: "unit Vehicle" where
  "topSpeedCar = car\<lparr>speed := maxSpeed\<rparr>"

lemmas params = maxSpeed_def acceleration_def deceleration_def brakeForce_def
  turnSpeed_def wheelBase_def wheelRadius_def maxSteeringAngle_def

section \<open>Which fields each step writes\<close>

lemma adjustOrientation_fields:
  "speed (adjustOrientation sc v) = speed v"
  "steeringAngle (adjustOrientation sc v) = steeringAngle v"
  "rotation (adjustOrientation sc v) = rotation v"
  "controls (adjustOrientation sc v) = controls v"
  "mesh_position (adjustOrientation sc v) = mesh_position v"
  "mesh_rotation (adjustOrientation sc v) = mesh_rotation v"
  "chassisBody (adjustOrientation sc v) = chassisBody v"
  "wheelRaycasts (adjustOrientation sc v) = wheelRaycasts v"
  by (simp_all add: adjustOrientation_def Let_def split: list.split option.split)

lemma getHeightAtPosition_Some:
  "getHeightAtPosition sc a b = Some (case pickGround sc a b of Hit p \<Rightarrow> vy p | Miss \<Rightarrow> 0)"
  by (simp add: getHeightAtPosition_def split: PickingInfo.split)

lemma adjustToTerrain_fields:
  "speed (adjustToTerrain sc v) = speed v"
  "steeringAngle (adjustToTerrain sc v) = steeringAngle v"
  "rotation (adjustToTerrain sc v) = rotation v"
  "controls (adjustToTerrain sc v) = controls v"
  "mesh_rotation (adjustToTerrain sc v) = mesh_rotation v"
  "chassisBody (adjustToTerrain sc v) = chassisBody v"
  "vx (mesh_position (adjustToTerrain sc v)) = vx (mesh_position v)"
  "vz (mesh_position (adjustToTerrain sc v)) = vz (mesh_position v)"
  by (simp_all add: adjustToTerrain_def getHeightAtPosition_Some adjustOrientation_fields Let_def)

lemma updateBasicPhysics_fields:
  "speed (updateBasicPhysics sc v) = speed v"
  "steeringAngle (updateBasicPhysics sc v) = steeringAngle v"
  "controls (updateBasicPhysics sc v) = controls v"
  "chassisBody (updateBasicPhysics sc v) = chassisBody v"
  by (simp_all add: updateBasicPhysics_def adjustToTerrain_fields Let_def)

lemma updateSteering_fields:
  "speed (updateSteering v) = speed v"
  "controls (updateSteering v) = controls v"
  "rotation (updateSteering v) = rotation v"
  "chassisBody (updateSteering v) = chassisBody v"
  "mesh_position (updateSteering v) = mesh_position v"
  "mesh_rotation (updateSteering v) = mesh_rotation v"
  by (simp_all add: updateSteering_def Let_def)

lemma updateSpeed_fields:
  "steeringAngle (updateSpeed v) = steeringAngle v"
  "controls (updateSpeed v) = controls v"
  "rotation (updateSpeed v) = rotation v"
  "chassisBody (updateSpeed v) = chassisBody v"
  "mesh_position (updateSpeed v) = mesh_position v"
  "mesh_rotation (updateSpeed v) = mesh_rotation v"
  by (simp_all add: updateSpeed_def Let_def)

lemma updateWheelRaycasts_fields:
  "speed (updateWheelRaycasts sc v) = speed v"
  "steeringAngle (updateWheelRaycasts sc v) = steeringAngle v"
  "controls (updateWheelRaycasts sc v) = controls v"
  "rotation (updateWheelRaycasts sc v) = rotation v"
  "chassisBody (updateWheelRaycasts sc v) = chassisBody v"
  "mesh_position (updateWheelRaycasts sc v) = mesh_position v"
  "mesh_rotation (updateWheelRaycasts sc v) = mesh_rotation v"
  by (simp_all add: updateWheelRaycasts_def)

lemma speed_update: "speed (update sc v) = speed (updateSpeed (updateSteering v))"
  by (simp add: update_def Let_def updateBasicPhysics_fields updateWheelRaycasts_fields)

lemma steeringAngle_update: "steeringAngle (update sc v) = steeringAngle (updateSteering v)"
  by (simp add: update_def Let_def updateBasicPhysics_fields updateWheelRaycasts_fields
      updateSpeed_fields)

lemma controls_update: "controls (update sc v) = controls v"
  by (simp add: update_def Let_def updateBasicPhysics_fields updateWheelRaycasts_fields
      updateSpeed_fields updateSteering_fields)

lemma run_Nil: "run v [] = v"
  by (simp add: run_def)

lemma run_Cons: "run v (e # es) = run (step v e) es"
  by (simp add: run_def)

lemma run_snoc: "run v (es @ [e]) = step (run v es) e"
  by (simp add: run_def)


lemma adjustToTerrain_env:
  "environment sc \<Longrightarrow>
   adjustToTerrain sc v =
     adjustOrientation sc
       (v\<lparr>mesh_position := (mesh_position v)
           \<lparr>vy := (case pickGround sc (vx (mesh_position v)) (vz (mesh_position v)) of
                     Hit p \<Rightarrow> vy p | Miss \<Rightarrow> 0) + wheelRadius\<rparr>\<rparr>)"
  by (simp add: adjustToTerrain_def getHeightAtPosition_Some Let_def)

lemma update_basic:
  "\<not> chassisBody v \<Longrightarrow>
   update sc v = updateBasicPhysics sc (updateWheelRaycasts sc (updateSpeed (updateSteering v)))"
  by (simp add: update_def Let_def updateWheelRaycasts_fields updateSpeed_fields
      updateSteering_fields)

lemma rotation_updateBasicPhysics:
  "rotation (updateBasicPhysics sc v) =
     (if speed v \<noteq> 0 then
        rotation v + speed v / (wheelBase / sin (\<bar>steeringAngle v\<bar> + 0.0001)) * sgn (steeringAngle v)
      else rotation v)"
  by (simp add: updateBasicPhysics_def Let_def adjustToTerrain_fields)

lemma position_updateBasicPhysics:
  "speed v \<noteq> 0 \<Longrightarrow>
   vx (mesh_position (updateBasicPhysics sc v))
     = vx (mesh_position v) + sin (rotation (updateBasicPhysics sc v)) * speed v
   \<and> vz (mesh_position (updateBasicPhysics sc v))
     = vz (mesh_position v) + cos (rotation (updateBasicPhysics sc v)) * speed v
   \<and> vy (mesh_rotation (updateBasicPhysics sc v)) = rotation (updateBasicPhysics sc v)"
  by (simp add: updateBasicPhysics_def Let_def adjustToTerrain_fields)







lemma chassisBody_update: "chassisBody (update sc v) = chassisBody v"
  by (simp add: update_def Let_def updateBasicPhysics_fields updateWheelRaycasts_fields
      updateSpeed_fields updateSteering_fields)

lemma rotation_update:
  "\<not> chassisBody v \<Longrightarrow>
   rotation (update sc v) =
     (if speed (update sc v) \<noteq> 0 then
        rotation v + speed (update sc v)
          / (wheelBase / sin (\<bar>steeringAngle (update sc v)\<bar> + 0.0001))
          * sgn (steeringAngle (update sc v))
      else rotation v)"
  by (simp add: update_basic rotation_updateBasicPhysics updateBasicPhysics_fields
      updateWheelRaycasts_fields updateSpeed_fields updateSteering_fields)

lemma yaw_update:
  "\<not> chassisBody v \<Longrightarrow> speed (update sc v) \<noteq> 0 \<Longrightarrow>
   vy (mesh_rotation (update sc v)) = rotation (update sc v)"
  using position_updateBasicPhysics
    [of "updateWheelRaycasts sc (updateSpeed (updateSteering v))" sc]
  by (simp add: update_basic updateWheelRaycasts_fields updateBasicPhysics_fields)



lemma handleKeyDown_fields:
  "speed (handleKeyDown key v) = speed v"
  "steeringAngle (handleKeyDown key v) = steeringAngle v"
  by (simp_all add: handleKeyDown_def toggleCamera_def Let_def split: CameraMode.split)

lemma handleKeyUp_fields:
  "speed (handleKeyUp key v) = speed v"
  "steeringAngle (handleKeyUp key v) = steeringAngle v"
  by (simp_all add: handleKeyUp_def Let_def)

lemma speed_updateSpeed:
  "speed (updateSpeed v) =
     (if brake (controls v) then
        (if speed v > 0 then max 0 (speed v - brakeForce)
         else if speed v < 0 then min 0 (speed v + brakeForce)
         else speed v)
      else if forward (controls v) then
        min maxSpeed (speed v + acceleration * (1 - min 0.7 (\<bar>speed v\<bar> / maxSpeed)))
      else if backward (controls v) then max (- maxSpeed / 2) (speed v - acceleration)
      else if speed v > 0 then max 0 (speed v - deceleration)
      else if speed v < 0 then min 0 (speed v + deceleration)
      else speed v)"
  by (simp add: updateSpeed_def Let_def)

section \<open>Bounds on speed and steering angle\<close>

lemma accel_nonneg: "0 \<le> acceleration * (1 - min 0.7 (\<bar>s\<bar> / maxSpeed))"
proof -
  have "min 0.7 (\<bar>s\<bar> / maxSpeed) \<le> (0.7::real)" by (rule min.cobounded1)
  then have "0 \<le> 1 - min 0.7 (\<bar>s\<bar> / maxSpeed)" by linarith
  then show ?thesis by (simp add: acceleration_def)
qed

lemma updateSpeed_bounds:
  assumes "- maxSpeed / 2 \<le> speed v" and "speed v \<le> maxSpeed"
  shows "- maxSpeed / 2 \<le> speed (updateSpeed v) \<and> speed (updateSpeed v) \<le> maxSpeed"
proof -
  define A where "A = acceleration * (1 - min 0.7 (\<bar>speed v\<bar> / maxSpeed))"
  have pos: "0 \<le> A"
    unfolding A_def by (rule accel_nonneg)
  have "speed (updateSpeed v) =
     (if brake (controls v) then
        (if speed v > 0 then max 0 (speed v - 3/2)
         else if speed v < 0 then min 0 (speed v + 3/2)
         else speed v)
      else if forward (controls v) then min 80 (speed v + A)
      else if backward (controls v) then max (- 40) (speed v - 1/2)
      else if speed v > 0 then max 0 (speed v - 1/5)
      else if speed v < 0 then min 0 (speed v + 1/5)
      else speed v)"
    unfolding speed_updateSpeed A_def by (simp add: params)
  with assms pos show ?thesis
    by (auto simp add: maxSpeed_def min_def max_def)
qed

lemma updateSteering_bounds:
  assumes "\<bar>steeringAngle v\<bar> \<le> maxSteeringAngle"
  shows "\<bar>steeringAngle (updateSteering v)\<bar> \<le> maxSteeringAngle"
proof -
  have m: "0 < maxSteeringAngle" "turnSpeed = 1/20"
    using pi_gt_zero by (simp_all add: params)
  from assms m show ?thesis
    by (auto simp add: updateSteering_def Let_def min_def max_def)
qed

lemma step_bounds:
  assumes "- maxSpeed / 2 \<le> speed v \<and> speed v \<le> maxSpeed
     \<and> \<bar>steeringAngle v\<bar> \<le> maxSteeringAngle"
  shows "- maxSpeed / 2 \<le> speed (step v e) \<and> speed (step v e) \<le> maxSpeed
     \<and> \<bar>steeringAngle (step v e)\<bar> \<le> maxSteeringAngle"
proof (cases e)
  case (KeyDown key)
  then show ?thesis using assms by (simp add: handleKeyDown_fields)
next
  case (KeyUp key)
  then show ?thesis using assms by (simp add: handleKeyUp_fields)
next
  case Reset
  then show ?thesis by (simp add: reset_def params)
next
  case (Tick sc)
  have "- maxSpeed / 2 \<le> speed (updateSteering v) \<and> speed (updateSteering v) \<le> maxSpeed"
    using assms by (simp add: updateSteering_fields)
  then have "- maxSpeed / 2 \<le> speed (updateSpeed (updateSteering v))
      \<and> speed (updateSpeed (updateSteering v)) \<le> maxSpeed"
    using updateSpeed_bounds by blast
  with Tick assms show ?thesis
    by (simp add: speed_update steeringAngle_update updateSteering_bounds)
qed

lemma run_bounds:
  assumes "- maxSpeed / 2 \<le> speed v \<and> speed v \<le> maxSpeed
     \<and> \<bar>steeringAngle v\<bar> \<le> maxSteeringAngle"
  shows "- maxSpeed / 2 \<le> speed (run v es) \<and> speed (run v es) \<le> maxSpeed
     \<and> \<bar>steeringAngle (run v es)\<bar> \<le> maxSteeringAngle"
  using assms
proof (induction es arbitrary: v)
  case Nil
  then show ?case by (simp add: run_def)
next
  case (Cons e es)
  from step_bounds [OF Cons.prems] Cons.IH [of "step v e"]
  show ?case by (simp add: run_def)
qed

lemma spawn_bounds:
  "- maxSpeed / 2 \<le> speed (spawn cb n) \<and> speed (spawn cb n) \<le> maxSpeed
     \<and> \<bar>steeringAngle (spawn cb n)\<bar> \<le> maxSteeringAngle"
  by (simp add: spawn_def params)

text \<open>
  Claim C1. Whatever keys go down and up, whatever frames are rendered and however often
  the vehicle is reset, the speed of a vehicle spawned at speed 0 stays between
  \<open>- maxSpeed / 2\<close> and \<open>maxSpeed\<close>; and a frame keeps any speed in that range within
  it, whatever the controls are.
\<close>

theorem speed_invariant:
  "- maxSpeed / 2 \<le> speed (run (spawn cb n) es) \<and> speed (run (spawn cb n) es) \<le> maxSpeed
   \<and> (- maxSpeed / 2 \<le> speed v \<and> speed v \<le> maxSpeed \<longrightarrow>
        - maxSpeed / 2 \<le> speed (update sc v) \<and> speed (update sc v) \<le> maxSpeed)"
proof -
  have "- maxSpeed / 2 \<le> speed (updateSpeed (updateSteering v))
      \<and> speed (updateSpeed (updateSteering v)) \<le> maxSpeed"
    if "- maxSpeed / 2 \<le> speed v \<and> speed v \<le> maxSpeed"
    using that by (intro updateSpeed_bounds) (simp_all add: updateSteering_fields)
  with run_bounds [OF spawn_bounds, of cb n es] show ?thesis
    by (simp add: speed_update)
qed

theorem speed_invariant_witness:
  "- maxSpeed / 2 \<le> speed brakingCar \<and> speed brakingCar \<le> maxSpeed
   \<and> - maxSpeed / 2 \<le> speed (update emptyScene brakingCar)
   \<and> speed (update emptyScene brakingCar) \<le> maxSpeed"
proof -
  have "- maxSpeed / 2 \<le> speed brakingCar \<and> speed brakingCar \<le> maxSpeed"
    by (simp add: brakingCar_def maxSpeed_def)
  with speed_invariant [of False 4 "[]" brakingCar emptyScene] show ?thesis
    by blast
qed

text \<open>
  Claim C2. Along every run from the spawned vehicle the steering angle stays within
  \<open>maxSteeringAngle\<close> of zero, and a frame keeps any angle in that range within it,
  whatever the controls are; in a frame with neither \<open>left\<close> nor \<open>right\<close> set the
  angle keeps its sign and its size shrinks by \<open>turnSpeed / 2\<close>, stopping at zero.
\<close>

theorem steering_invariant:
  "\<bar>steeringAngle (run (spawn cb n) es)\<bar> \<le> maxSteeringAngle
   \<and> (\<bar>steeringAngle v\<bar> \<le> maxSteeringAngle \<longrightarrow>
        \<bar>steeringAngle (update sc v)\<bar> \<le> maxSteeringAngle)
   \<and> (\<not> left (controls v) \<and> \<not> right (controls v) \<longrightarrow>
        steeringAngle (update sc v)
          = sgn (steeringAngle v) * max 0 (\<bar>steeringAngle v\<bar> - turnSpeed / 2))"
proof -
  have a: "\<bar>steeringAngle (run (spawn cb n) es)\<bar> \<le> maxSteeringAngle"
    using run_bounds [OF spawn_bounds] by blast
  have b: "\<bar>steeringAngle v\<bar> \<le> maxSteeringAngle \<longrightarrow>
        \<bar>steeringAngle (update sc v)\<bar> \<le> maxSteeringAngle"
    by (simp add: steeringAngle_update updateSteering_bounds)
  have c: "\<not> left (controls v) \<and> \<not> right (controls v) \<longrightarrow>
        steeringAngle (update sc v)
          = sgn (steeringAngle v) * max 0 (\<bar>steeringAngle v\<bar> - turnSpeed / 2)"
    by (auto simp add: steeringAngle_update updateSteering_def Let_def turnSpeed_def sgn_if
        min_def max_def)
  from a b c show ?thesis by blast
qed

theorem steering_invariant_witness:
  "\<not> left (controls turnedCar) \<and> \<not> right (controls turnedCar)
   \<and> steeringAngle turnedCar = 1 / 20
   \<and> \<bar>steeringAngle turnedCar\<bar> \<le> maxSteeringAngle
   \<and> steeringAngle (update emptyScene turnedCar) = 1 / 40"
proof -
  have c: "\<not> left (controls turnedCar) \<and> \<not> right (controls turnedCar)"
    by (simp add: turnedCar_def car_def spawn_def)
  have a: "steeringAngle turnedCar = 1 / 20"
    by (simp add: turnedCar_def)
  have b: "\<bar>steeringAngle turnedCar\<bar> \<le> maxSteeringAngle"
    using pi_ge_two by (simp add: a maxSteeringAngle_def)
  from steering_invariant [of False 4 "[]" turnedCar emptyScene] c
  have "steeringAngle (update emptyScene turnedCar)
      = sgn (steeringAngle turnedCar) * max 0 (\<bar>steeringAngle turnedCar\<bar> - turnSpeed / 2)"
    by blast
  then have "steeringAngle (update emptyScene turnedCar) = 1 / 40"
    by (simp add: a turnSpeed_def)
  with a b c show ?thesis by blast
qed

text \<open>
  Claim C6. In a frame with \<open>brake\<close> set the speed moves toward zero by \<open>brakeForce\<close>
  and stops at zero, and the values of \<open>forward\<close> and \<open>backward\<close> make no difference.
\<close>

theorem brake_rule:
  "brake (controls v) \<Longrightarrow>
   speed (update sc v) =
     (if speed v > 0 then max 0 (speed v - brakeForce)
      else if speed v < 0 then min 0 (speed v + brakeForce)
      else speed v)
   \<and> speed (update sc (v\<lparr>controls := (controls v)\<lparr>forward := f, backward := b\<rparr>\<rparr>))
       = speed (update sc v)"
  by (simp add: speed_update speed_updateSpeed updateSteering_fields updateSteering_def Let_def)

theorem brake_rule_witness:
  "brake (controls brakingCar) \<and> forward (controls brakingCar) \<and> speed brakingCar = 2
   \<and> speed (update emptyScene brakingCar) = 1 / 2"
  using brake_rule [of brakingCar emptyScene True False]
  by (simp add: brakingCar_def car_def spawn_def brakeForce_def)

text \<open>
  Claim C7. In a frame with \<open>brake\<close> clear and \<open>forward\<close> set the speed becomes
  \<open>min maxSpeed (speed + acceleration * (1 - min 0.7 (\<bar>speed\<bar> / maxSpeed)))\<close>: from
  speed 0 that is 0.5, from speed 80 it is 80.
\<close>

theorem forward_rule:
  "\<not> brake (controls v) \<Longrightarrow> forward (controls v) \<Longrightarrow>
   speed (update sc v)
     = min maxSpeed (speed v + acceleration * (1 - min 0.7 (\<bar>speed v\<bar> / maxSpeed)))
   \<and> speed (update sc (v\<lparr>speed := 0\<rparr>)) = 0.5
   \<and> speed (update sc (v\<lparr>speed := 80\<rparr>)) = 80"
  by (simp add: speed_update speed_updateSpeed updateSteering_fields updateSteering_def Let_def
      params)

theorem forward_rule_witness:
  "\<not> brake (controls acceleratingCar) \<and> forward (controls acceleratingCar)
   \<and> speed acceleratingCar = 0
   \<and> speed (update emptyScene acceleratingCar) = 1 / 2"
  using forward_rule [of acceleratingCar emptyScene]
  by (simp add: acceleratingCar_def car_def spawn_def handleKeyDown_def toLowerCase_def Let_def)

section \<open>The kinematic integrator\<close>

text \<open>
  Claim C5, amended. In a frame with nonzero speed \<open>updateBasicPhysics\<close> follows the
  bicycle-model formulas for the stored steering angle \<open>this.steeringAngle\<close> (the
  speed-scaled effective angle is not read): new heading, displacement
  \<open>sin heading' * speed\<close> along x and \<open>cos heading' * speed\<close> along z, and the mesh's
  yaw set to the new heading. At speed 10 with effective angle 0 the heading is
  unchanged and the position advances by \<open>10 * sin heading\<close> and \<open>10 * cos heading\<close>.
  Without a chassis body, \<open>update\<close> integrates the speed and the steering angle it has
  just computed.
\<close>

theorem kinematic_step:
  "speed v \<noteq> 0 \<Longrightarrow>
   (rotation (updateBasicPhysics sc v),
    vx (mesh_position (updateBasicPhysics sc v)) - vx (mesh_position v),
    vz (mesh_position (updateBasicPhysics sc v)) - vz (mesh_position v))
     = bicycleModel (steeringAngle v) (speed v) (rotation v)
   \<and> vy (mesh_rotation (updateBasicPhysics sc v)) = rotation (updateBasicPhysics sc v)
   \<and> (speed v = 10 \<and> effectiveSteeringAngle v = 0 \<longrightarrow>
        rotation (updateBasicPhysics sc v) = rotation v
        \<and> vx (mesh_position (updateBasicPhysics sc v))
            = vx (mesh_position v) + 10 * sin (rotation v)
        \<and> vz (mesh_position (updateBasicPhysics sc v))
            = vz (mesh_position v) + 10 * cos (rotation v))
   \<and> (\<not> chassisBody w \<and> speed (update sc w) \<noteq> 0 \<longrightarrow>
        rotation (update sc w)
          = fst (bicycleModel (steeringAngle (update sc w)) (speed (update sc w)) (rotation w)))"
proof -
  assume s: "speed v \<noteq> 0"
  have a: "(rotation (updateBasicPhysics sc v),
    vx (mesh_position (updateBasicPhysics sc v)) - vx (mesh_position v),
    vz (mesh_position (updateBasicPhysics sc v)) - vz (mesh_position v))
     = bicycleModel (steeringAngle v) (speed v) (rotation v)"
    using s by (simp add: updateBasicPhysics_def bicycleModel_def Let_def adjustToTerrain_fields)
  have b: "vy (mesh_rotation (updateBasicPhysics sc v)) = rotation (updateBasicPhysics sc v)"
    using position_updateBasicPhysics [OF s, of sc] by simp
  have c: "rotation (updateBasicPhysics sc v) = rotation v
        \<and> vx (mesh_position (updateBasicPhysics sc v))
            = vx (mesh_position v) + 10 * sin (rotation v)
        \<and> vz (mesh_position (updateBasicPhysics sc v))
            = vz (mesh_position v) + 10 * cos (rotation v)"
    if h: "speed v = 10 \<and> effectiveSteeringAngle v = 0"
  proof -
    have "speedFactor 10 \<noteq> 0" by (simp add: speedFactor_def maxSpeed_def)
    with h have z: "steeringAngle v = 0" by (auto simp add: effectiveSteeringAngle_def)
    have r: "rotation (updateBasicPhysics sc v) = rotation v"
      using h z by (simp add: rotation_updateBasicPhysics)
    from position_updateBasicPhysics [OF s, of sc] r h show ?thesis by simp
  qed
  have d: "rotation (update sc w)
          = fst (bicycleModel (steeringAngle (update sc w)) (speed (update sc w)) (rotation w))"
    if h: "\<not> chassisBody w \<and> speed (update sc w) \<noteq> 0"
    using h rotation_update [of w sc] by (simp add: bicycleModel_def Let_def)
  from a b c d show ?thesis by blast
qed

theorem kinematic_step_witness:
  "speed cruisingCar \<noteq> 0 \<and> speed cruisingCar = 10 \<and> effectiveSteeringAngle cruisingCar = 0
   \<and> \<not> chassisBody cruisingCar \<and> speed (update emptyScene cruisingCar) \<noteq> 0
   \<and> rotation (updateBasicPhysics emptyScene cruisingCar) = 0
   \<and> vx (mesh_position (updateBasicPhysics emptyScene cruisingCar)) = 0
   \<and> vz (mesh_position (updateBasicPhysics emptyScene cruisingCar)) = 10"
proof -
  have s: "speed cruisingCar \<noteq> 0" "speed cruisingCar = 10"
    "effectiveSteeringAngle cruisingCar = 0" "\<not> chassisBody cruisingCar"
    "rotation cruisingCar = 0" "mesh_position cruisingCar = Vector3_new 0 0 0"
    by (simp_all add: cruisingCar_def car_def spawn_def effectiveSteeringAngle_def)
  have u: "speed (update emptyScene cruisingCar) \<noteq> 0"
    by (simp add: speed_update speed_updateSpeed updateSteering_fields cruisingCar_def car_def
        spawn_def params)
  from kinematic_step [OF s(1), of emptyScene cruisingCar] s
  have "rotation (updateBasicPhysics emptyScene cruisingCar) = 0
   \<and> vx (mesh_position (updateBasicPhysics emptyScene cruisingCar)) = 0
   \<and> vz (mesh_position (updateBasicPhysics emptyScene cruisingCar)) = 10"
    by (simp add: Vector3_new_def)
  with s u show ?thesis by blast
qed

text \<open>
  Claim C5 as it is worded fails: at speed 80 with the wheels at 0.3 the effective angle
  is 0.15, and the heading changes by \<open>20 * sin 0.3001\<close>, not by \<open>20 * sin 0.1501\<close>.
\<close>

theorem kinematic_step_counterexample:
  "speed fastTurningCar \<noteq> 0
   \<and> rotation (updateBasicPhysics emptyScene fastTurningCar)
       \<noteq> fst (bicycleModel (effectiveSteeringAngle fastTurningCar) (speed fastTurningCar)
               (rotation fastTurningCar))"
proof -
  have e: "effectiveSteeringAngle fastTurningCar = 3 / 20"
    by (simp add: effectiveSteeringAngle_def speedFactor_def fastTurningCar_def maxSpeed_def)
  have "sin (1501 / 10000 :: real) < sin (3001 / 10000)"
    using pi_ge_two by (intro sin_monotone_2pi) simp_all
  then have "20 * sin (3001 / 10000 :: real) \<noteq> 20 * sin (1501 / 10000)" by simp
  moreover have "rotation (updateBasicPhysics emptyScene fastTurningCar) = 20 * sin (3001 / 10000)"
    by (simp add: rotation_updateBasicPhysics fastTurningCar_def car_def spawn_def wheelBase_def)
  moreover have "fst (bicycleModel (effectiveSteeringAngle fastTurningCar) (speed fastTurningCar)
               (rotation fastTurningCar)) = 20 * sin (1501 / 10000)"
    unfolding e by (simp add: bicycleModel_def Let_def fastTurningCar_def car_def spawn_def wheelBase_def)
  ultimately show ?thesis by (simp add: fastTurningCar_def)
qed

section \<open>The effective steering angle\<close>

lemma speedFactor_in_range:
  "\<bar>s\<bar> \<le> 2 * maxSpeed \<Longrightarrow> speedFactor s = max 0 (1 - 0.5 * \<bar>s\<bar> / maxSpeed)"
  by (simp add: speedFactor_def maxSpeed_def min_def max_def)

text \<open>
  Claim C8. In every state of every run from the spawned vehicle, and in every frame of
  such a run at lines 1572-1573, the effective steering angle is the stored steering
  angle times \<open>max 0 (1 - 0.5 * \<bar>speed\<bar> / maxSpeed)\<close>; so it is for any state whose speed
  is within \<open>2 * maxSpeed\<close> of zero.
\<close>

theorem effective_angle:
  "(\<bar>speed v\<bar> \<le> 2 * maxSpeed \<longrightarrow>
      effectiveSteeringAngle v = steeringAngle v * max 0 (1 - 0.5 * \<bar>speed v\<bar> / maxSpeed))
   \<and> effectiveSteeringAngle (updateSteering (run (spawn cb n) es))
       = steeringAngle (updateSteering (run (spawn cb n) es))
           * max 0 (1 - 0.5 * \<bar>speed (run (spawn cb n) es)\<bar> / maxSpeed)
   \<and> effectiveSteeringAngle (run (spawn cb n) es)
       = steeringAngle (run (spawn cb n) es)
           * max 0 (1 - 0.5 * \<bar>speed (run (spawn cb n) es)\<bar> / maxSpeed)"
proof -
  have a: "\<bar>speed v\<bar> \<le> 2 * maxSpeed \<longrightarrow>
      effectiveSteeringAngle v = steeringAngle v * max 0 (1 - 0.5 * \<bar>speed v\<bar> / maxSpeed)"
    by (simp add: effectiveSteeringAngle_def speedFactor_in_range)
  have "- maxSpeed / 2 \<le> speed (run (spawn cb n) es) \<and> speed (run (spawn cb n) es) \<le> maxSpeed"
    using run_bounds [OF spawn_bounds] by blast
  then have r: "\<bar>speed (run (spawn cb n) es)\<bar> \<le> 2 * maxSpeed"
    by (auto simp add: maxSpeed_def)
  then have b: "effectiveSteeringAngle (updateSteering (run (spawn cb n) es))
       = steeringAngle (updateSteering (run (spawn cb n) es))
           * max 0 (1 - 0.5 * \<bar>speed (run (spawn cb n) es)\<bar> / maxSpeed)"
    by (simp add: effectiveSteeringAngle_def speedFactor_in_range updateSteering_fields)
  from r have c: "effectiveSteeringAngle (run (spawn cb n) es)
       = steeringAngle (run (spawn cb n) es)
           * max 0 (1 - 0.5 * \<bar>speed (run (spawn cb n) es)\<bar> / maxSpeed)"
    by (simp add: effectiveSteeringAngle_def speedFactor_in_range)
  from a b c show ?thesis by blast
qed

theorem effective_angle_witness:
  "\<bar>speed fastTurningCar\<bar> \<le> 2 * maxSpeed \<and> effectiveSteeringAngle fastTurningCar = 3 / 20"
  using effective_angle [of fastTurningCar False 0 "[]"]
  by (auto simp add: fastTurningCar_def maxSpeed_def)

section \<open>The terrain query and the terrain follower\<close>

text \<open>
  Claim C10. \<open>getHeightAtPosition\<close> never returns \<open>null\<close>; it returns 0 when the ray
  hits nothing; so whenever the environment is there \<open>adjustToTerrain\<close> takes the branch
  that sets the elevation to the returned height plus \<open>wheelRadius\<close>.
\<close>

theorem height_never_null:
  "getHeightAtPosition sc a b \<noteq> None
   \<and> (pickGround sc a b = Miss \<longrightarrow> getHeightAtPosition sc a b = Some 0)
   \<and> (environment sc \<longrightarrow>
        (\<exists>height. getHeightAtPosition sc (vx (mesh_position v)) (vz (mesh_position v)) = Some height
           \<and> adjustToTerrain sc v
               = adjustOrientation sc (v\<lparr>mesh_position := (mesh_position v)\<lparr>vy := height + wheelRadius\<rparr>\<rparr>)
           \<and> vy (mesh_position (adjustToTerrain sc v)) = height + wheelRadius))"
  by (simp add: getHeightAtPosition_Some adjustToTerrain_env adjustOrientation_fields)

theorem height_never_null_witness:
  "pickGround emptyScene 3 4 = Miss \<and> environment emptyScene
   \<and> getHeightAtPosition emptyScene 3 4 = Some 0
   \<and> vy (mesh_position (adjustToTerrain emptyScene car)) = 7 / 10"
  using height_never_null [of emptyScene 3 4 car]
  by (auto simp add: emptyScene_def getHeightAtPosition_def wheelRadius_def)



lemma acceleratingCar_eq:
  "acceleratingCar = car\<lparr>controls := (controls car)\<lparr>forward := True\<rparr>\<rparr>"
  by (simp add: acceleratingCar_def handleKeyDown_def toLowerCase_def Let_def)


lemma acceleratingCar_fields:
  "\<not> chassisBody acceleratingCar" "speed (update sc acceleratingCar) = 1 / 2"
  "mesh_rotationQuaternion acceleratingCar = None"
  "wheelRaycasts acceleratingCar = [None, None, None, None]"
  "controls acceleratingCar = (controls car)\<lparr>forward := True\<rparr>"
  by (simp_all add: acceleratingCar_eq car_def spawn_def speed_update speed_updateSpeed
      updateSteering_fields params eval_nat_numeral)




section \<open>Coasting\<close>

lemma idle_speed:
  assumes "\<not> forward (controls v)" "\<not> backward (controls v)" "\<not> brake (controls v)"
  shows "speed (update sc v) =
    (if speed v > 0 then max 0 (speed v - deceleration)
     else if speed v < 0 then min 0 (speed v + deceleration) else speed v)"
  using assms by (simp add: speed_update speed_updateSpeed updateSteering_fields)

lemma controls_run_ticks: "controls (run v (map Tick scs)) = controls v"
  by (induction scs arbitrary: v) (simp_all add: run_def controls_update)

lemma coast_closed_form:
  assumes "\<not> forward (controls v)" "\<not> backward (controls v)" "\<not> brake (controls v)"
    and "0 \<le> speed v"
  shows "speed (run v (map Tick scs)) = max 0 (speed v - deceleration * real (length scs))"
  using assms
proof (induction scs rule: rev_induct)
  case Nil
  then show ?case by (simp add: run_def)
next
  case (snoc sc scs)
  let ?w = "run v (map Tick scs)"
  have c: "\<not> forward (controls ?w)" "\<not> backward (controls ?w)" "\<not> brake (controls ?w)"
    using snoc.prems by (simp_all add: controls_run_ticks)
  have "speed (run v (map Tick (scs @ [sc]))) = speed (update sc ?w)"
    by (simp add: run_snoc)
  also have "\<dots> = (if speed ?w > 0 then max 0 (speed ?w - deceleration)
     else if speed ?w < 0 then min 0 (speed ?w + deceleration) else speed ?w)"
    by (rule idle_speed [OF c])
  finally show ?case
    using snoc.IH snoc.prems
    by (auto simp add: deceleration_def max_def algebra_simps)
qed

lemma idle_fixed:
  assumes "\<not> forward (controls v)" "\<not> backward (controls v)" "\<not> brake (controls v)"
    "\<not> left (controls v)" "\<not> right (controls v)"
    and "speed v = 0" "steeringAngle v = 0"
  shows "speed (run v (map Tick scs)) = 0 \<and> steeringAngle (run v (map Tick scs)) = 0"
  using assms
proof (induction scs rule: rev_induct)
  case Nil
  then show ?case by (simp add: run_def)
next
  case (snoc sc scs)
  let ?w = "run v (map Tick scs)"
  have c: "\<not> forward (controls ?w)" "\<not> backward (controls ?w)" "\<not> brake (controls ?w)"
     "\<not> left (controls ?w)" "\<not> right (controls ?w)"
    using snoc.prems by (simp_all add: controls_run_ticks)
  have s: "speed ?w = 0" "steeringAngle ?w = 0" using snoc by simp_all
  show ?case
    using c s
    by (simp add: run_snoc speed_update steeringAngle_update speed_updateSpeed
        updateSteering_fields updateSteering_def Let_def)
qed


text \<open>
  Claim C9. With every control false and the speed at \<open>maxSpeed\<close>, after \<open>n\<close> frames the
  speed is \<open>max 0 (maxSpeed - deceleration * n)\<close>: it is never negative, each frame
  lowers it as long as it is positive, and (in exact arithmetic) it is positive for
  fewer than 400 frames and exactly 0 from frame 400 on. From speed 0 and steering angle 0, with every control
  false, both stay 0.
\<close>

theorem coasting:
  assumes idle: "\<not> forward (controls v) \<and> \<not> backward (controls v) \<and> \<not> left (controls v)
      \<and> \<not> right (controls v) \<and> \<not> brake (controls v) \<and> \<not> handbrake (controls v)"
    and top: "speed v = maxSpeed"
  shows "speed (run v (map Tick scs)) = max 0 (maxSpeed - deceleration * real (length scs))
     \<and> 0 \<le> speed (run v (map Tick scs))
     \<and> (0 < speed (run v (map Tick scs)) \<longrightarrow>
          speed (run v (map Tick (scs @ [sc]))) < speed (run v (map Tick scs)))
     \<and> (length scs < 400 \<longrightarrow> 0 < speed (run v (map Tick scs)))
     \<and> (400 \<le> length scs \<longrightarrow> speed (run v (map Tick scs)) = 0)
     \<and> speed (run (v\<lparr>speed := 0, steeringAngle := 0\<rparr>) (map Tick scs)) = 0
     \<and> steeringAngle (run (v\<lparr>speed := 0, steeringAngle := 0\<rparr>) (map Tick scs)) = 0"
proof -
  have c: "\<not> forward (controls v)" "\<not> backward (controls v)" "\<not> brake (controls v)"
    "\<not> left (controls v)" "\<not> right (controls v)"
    using idle by simp_all
  have p: "0 \<le> speed v" using top by (simp add: maxSpeed_def)
  have f: "speed (run v (map Tick xs)) = max 0 (80 - real (length xs) / 5)" for xs
    using coast_closed_form [OF c(1) c(2) c(3) p, of xs] top
    by (simp add: maxSpeed_def deceleration_def)
  have f1: "speed (run v (map Tick (scs @ [sc]))) = max 0 (80 - (real (length scs) + 1) / 5)"
    using f [of "scs @ [sc]"] by (simp add: add.commute)
  have z: "speed (run (v\<lparr>speed := 0, steeringAngle := 0\<rparr>) (map Tick scs)) = 0
     \<and> steeringAngle (run (v\<lparr>speed := 0, steeringAngle := 0\<rparr>) (map Tick scs)) = 0"
    using c by (intro idle_fixed) simp_all
  have a: "speed (run v (map Tick scs)) = max 0 (maxSpeed - deceleration * real (length scs))"
    using f [of scs] by (simp add: maxSpeed_def deceleration_def)
  have b: "0 < speed (run v (map Tick scs)) \<longrightarrow>
          speed (run v (map Tick (scs @ [sc]))) < speed (run v (map Tick scs))"
    unfolding f1 f [of scs] by (simp add: max_def)
  have d: "length scs < 400 \<longrightarrow> 0 < speed (run v (map Tick scs))"
    unfolding f [of scs] by (simp add: max_def)
  have e: "400 \<le> length scs \<longrightarrow> speed (run v (map Tick scs)) = 0"
    unfolding f [of scs] by (simp add: max_def)
  have g: "0 \<le> speed (run v (map Tick scs))"
    unfolding f [of scs] by simp
  from a b d e g z show ?thesis by blast
qed

theorem coasting_witness:
  "speed topSpeedCar = maxSpeed
   \<and> speed (run topSpeedCar (map Tick [emptyScene])) = 399 / 5
   \<and> speed (run topSpeedCar (map Tick ([emptyScene] @ [emptyScene])))
       < speed (run topSpeedCar (map Tick [emptyScene]))
   \<and> speed (run topSpeedCar (map Tick (replicate 400 emptyScene))) = 0"
proof -
  have i: "\<not> forward (controls topSpeedCar) \<and> \<not> backward (controls topSpeedCar)
      \<and> \<not> left (controls topSpeedCar) \<and> \<not> right (controls topSpeedCar)
      \<and> \<not> brake (controls topSpeedCar) \<and> \<not> handbrake (controls topSpeedCar)"
    by (simp add: topSpeedCar_def car_def spawn_def)
  have t: "speed topSpeedCar = maxSpeed"
    by (simp add: topSpeedCar_def)
  from coasting [OF i t, of "[emptyScene]" emptyScene]
    coasting [OF i t, of "replicate 400 emptyScene" emptyScene] t
  show ?thesis by (simp add: maxSpeed_def deceleration_def)
qed

section \<open>Reset\<close>

lemma reset_fields:
  "mesh_position (reset v) = Vector3_new 0 0 0"
  "mesh_rotation (reset v) = Vector3_new 0 0 0"
  "speed (reset v) = 0"
  "steeringAngle (reset v) = 0"
  "\<not> forward (controls (reset v))" "\<not> backward (controls (reset v))"
  "\<not> left (controls (reset v))" "\<not> right (controls (reset v))"
  "\<not> brake (controls (reset v))" "\<not> handbrake (controls (reset v))"
  "rotation (reset v) = rotation v"
  "chassisBody (reset v) = chassisBody v"
  "mesh_rotationQuaternion (reset v) = None"
  by (simp_all add: reset_def)

lemma turningCar_eq:
  "turningCar = update emptyScene (car\<lparr>controls := (controls car)\<lparr>forward := True, right := True\<rparr>\<rparr>)"
  by (simp add: turningCar_def run_def handleKeyDown_def toLowerCase_def Let_def)

lemma turningCar_fields:
  "\<not> chassisBody turningCar" "rotation turningCar = sin (501 / 10000) / 8"
proof -
  let ?wd = "car\<lparr>controls := (controls car)\<lparr>forward := True, right := True\<rparr>\<rparr>"
  have c: "\<not> chassisBody ?wd" by (simp add: car_def spawn_def)
  then show "\<not> chassisBody turningCar" by (simp add: turningCar_eq chassisBody_update)
  have "(1::real) / 20 < pi / 6" using pi_ge_two by simp
  then have a: "steeringAngle (update emptyScene ?wd) = 1 / 20"
    by (simp add: steeringAngle_update updateSteering_def Let_def car_def spawn_def params)
  have s: "speed (update emptyScene ?wd) = 1 / 2"
    by (simp add: speed_update speed_updateSpeed updateSteering_fields car_def spawn_def params)
  have r: "rotation ?wd = 0" by (simp add: car_def spawn_def)
  show "rotation turningCar = sin (501 / 10000) / 8"
    unfolding turningCar_eq rotation_update [OF c] a s r
    by (simp add: wheelBase_def)
qed

lemma sin_small_pos: "0 < sin (501 / 10000 :: real)"
  using pi_ge_two by (intro sin_gt_zero) simp_all

text \<open>
  Claim C3 does not hold of the source: \<open>reset\<close> does not assign \<open>this.rotation\<close>, the
  heading. After W and D go down, one frame and a reset, the heading is
  \<open>sin 0.0501 / 8\<close>, not 0; the reset has zeroed the yaw of the mesh, and the next frame
  with the accelerator held writes the stale heading back into it, where a freshly
  spawned vehicle has yaw 0 after the same frame.
\<close>

theorem reset_keeps_heading:
  "rotation (run car [KeyDown ''w'', KeyDown ''d'', Tick emptyScene, Reset]) = sin (501 / 10000) / 8
   \<and> rotation (run car [KeyDown ''w'', KeyDown ''d'', Tick emptyScene, Reset]) \<noteq> 0
   \<and> vy (mesh_rotation (run car [KeyDown ''w'', KeyDown ''d'', Tick emptyScene, Reset])) = 0
   \<and> vy (mesh_rotation (run car [KeyDown ''w'', KeyDown ''d'', Tick emptyScene, Reset,
          KeyDown ''w'', Tick emptyScene])) = sin (501 / 10000) / 8
   \<and> vy (mesh_rotation (run car [KeyDown ''w'', Tick emptyScene])) = 0"
proof -
  have t: "run car [KeyDown ''w'', KeyDown ''d'', Tick emptyScene, Reset] = reset turningCar"
    using run_snoc [of car "[KeyDown ''w'', KeyDown ''d'', Tick emptyScene]" Reset]
    by (simp add: turningCar_def)
  have r: "rotation (reset turningCar) = sin (501 / 10000) / 8"
    by (simp add: reset_fields turningCar_fields)
  have n: "rotation (reset turningCar) \<noteq> 0"
    unfolding r using sin_small_pos by simp
  have y: "vy (mesh_rotation (reset turningCar)) = 0"
    by (simp add: reset_fields Vector3_new_def)
  let ?g = "handleKeyDown ''w'' (reset turningCar)"
  have g: "\<not> chassisBody ?g" "speed ?g = 0" "steeringAngle ?g = 0"
    "controls ?g = (controls (reset turningCar))\<lparr>forward := True\<rparr>"
    "rotation ?g = sin (501 / 10000) / 8"
    using r by (simp_all add: handleKeyDown_def toLowerCase_def Let_def reset_fields
        turningCar_fields)
  have gs: "speed (update emptyScene ?g) = 1 / 2"
    by (simp add: speed_update speed_updateSpeed updateSteering_fields g reset_fields params)
  have ga: "steeringAngle (update emptyScene ?g) = 0"
    by (simp add: steeringAngle_update updateSteering_def Let_def g reset_fields)
  have gr: "rotation (update emptyScene ?g) = sin (501 / 10000) / 8"
    unfolding rotation_update [OF g(1)] gs ga by (simp add: g)
  have u: "run car [KeyDown ''w'', KeyDown ''d'', Tick emptyScene, Reset,
          KeyDown ''w'', Tick emptyScene] = update emptyScene ?g"
    using t by (simp add: run_def)
  have gy: "vy (mesh_rotation (update emptyScene ?g)) = sin (501 / 10000) / 8"
    using yaw_update [OF g(1), of emptyScene] gs gr by simp
  have f: "run car [KeyDown ''w'', Tick emptyScene] = update emptyScene acceleratingCar"
    by (simp add: run_def acceleratingCar_def)
  have fa: "steeringAngle (update emptyScene acceleratingCar) = 0"
    by (simp add: steeringAngle_update updateSteering_def Let_def acceleratingCar_eq car_def
        spawn_def)
  have fr: "rotation (update emptyScene acceleratingCar) = 0"
    unfolding rotation_update [OF acceleratingCar_fields(1)] acceleratingCar_fields(2) fa
    by (simp add: acceleratingCar_eq car_def spawn_def)
  have fy: "vy (mesh_rotation (update emptyScene acceleratingCar)) = 0"
    using yaw_update [OF acceleratingCar_fields(1), of emptyScene] fr
    by (simp add: acceleratingCar_fields)
  show ?thesis
    unfolding t u f using r n y gy fy by simp
qed

end
